theory Spec2Isabelle
  imports
    Complex_Main
    "HOL-Library.Multiset"
    "HOL-Library.Log_Nat"
    "HOL-Library.Char_ord"
    "HOL-Library.List_Lexorder"
begin

section \<open>PgOkache dashboard client (frontend/src/App.tsx)\<close>

text \<open>
  The repository's source is the dashboard client: a React component that fetches
  instances, setup states, snapshots and recommendations from a JSON API, groups them
  by instance id and renders them. This theory embeds the data types of \<open>App.tsx\<close>,
  its helper functions and its fetch handlers, and proves the properties the specification
  states about them.

  Conventions of the embedding:
  \<^item> a TypeScript object type is a record; since record fields are global names, each
    field carries a short prefix of its type (\<open>sn_instance\<close> is \<open>Snapshot.instance\<close>);
  \<^item> a value of type \<open>T | null | undefined\<close> is a \<open>T optional\<close>;
  \<^item> an integer-valued \<open>number\<close> (ids, version numbers) is an \<open>int\<close>, any other
    \<open>number\<close> a \<open>real\<close>: a JSON body only carries finite numbers;
  \<^item> a \<open>Record<number, T>\<close> used as a dictionary is a map \<open>int \<rightharpoonup> T\<close>;
  \<^item> a string is a list of bytes (UTF-8).
\<close>

subsection \<open>Optional values\<close>

datatype 'a optional = Undefined | Null | Val 'a

text \<open>JavaScript truthiness of an optional number: \<open>!x\<close> holds for \<open>undefined\<close>,
  \<open>null\<close> and \<open>0\<close>.\<close>

fun truthy :: "int optional \<Rightarrow> bool" where
  "truthy Undefined = False"
| "truthy Null = False"
| "truthy (Val v) = (v \<noteq> 0)"

subsection \<open>Double arithmetic\<close>

text \<open>
  A JavaScript \<open>number\<close> is an IEEE 754 double: a sign, a significand of 53 bits and a
  binary exponent. Arithmetic computes the exact result and rounds it to the nearest
  double, to the one with an even significand when two are equally near. A finite double
  is modelled by the real number it stands for. The exponent range is not modelled:
  results of magnitude \<open>2^1024\<close> and more (\<open>Infinity\<close>) or below \<open>2^-1022\<close> (subnormal)
  do not arise from dividing a nonzero integer-valued double by 10000.

  \<open>round_half_even x\<close> is the integer nearest to \<open>x\<close>, the even one at a tie.
  \<open>exponent x\<close> is the binary exponent of a nonzero \<open>x\<close>, the \<open>e\<close> with
  \<open>2^e \<le> |x| < 2^(e+1)\<close>, computed on the integer part of \<open>|x|\<close>, or of \<open>1 / |x|\<close>
  when \<open>|x| < 1\<close>. \<open>round_double x\<close> rounds \<open>x\<close> to a multiple of the spacing
  \<open>2^(e-52)\<close> of the doubles with that exponent.
\<close>

definition round_half_even :: "real \<Rightarrow> int" where
  "round_half_even x =
     (let f = \<lfloor>x\<rfloor>; d = x - of_int f
      in if d < 1 / 2 then f else if 1 / 2 < d then f + 1 else if even f then f else f + 1)"

definition exponent :: "real \<Rightarrow> int" where
  "exponent x =
     (if 1 \<le> \<bar>x\<bar> then bitlen \<lfloor>\<bar>x\<bar>\<rfloor> - 1 else - int (ceillog2 (nat \<lceil>1 / \<bar>x\<bar>\<rceil>)))"

definition round_double :: "real \<Rightarrow> real" where
  "round_double x =
     (if x = 0 then 0
      else (let ulp = 2 powi (exponent x - 52)
            in ulp * of_int (round_half_even (x / ulp))))"

text \<open>The operator \<open>/\<close> on two doubles.\<close>

definition double_div :: "real \<Rightarrow> real \<Rightarrow> real" where
  "double_div x y = round_double (x / y)"

subsection \<open>Version helpers\<close>

text \<open>
  \<^verbatim>\<open>const pgMajorVersion = (versionNum?: number | null) => {
    if (!versionNum) return null
    return Math.floor(versionNum / 10000)
  }\<close>
  The argument is an integer-valued double, given by the integer it stands for. The
  quotient is the rounded one of \<open>double_div\<close>; \<open>Math.floor\<close> of a double is exact.
\<close>

definition pgMajorVersion :: "int optional \<Rightarrow> int optional" where
  "pgMajorVersion versionNum =
     (if \<not> truthy versionNum then Null
      else (case versionNum of
              Val v \<Rightarrow> Val \<lfloor>double_div (of_int v) 10000\<rfloor>
            | _ \<Rightarrow> Null))"

text \<open>
  \<^verbatim>\<open>const pgConfigName = (major?: number | null) => {
    if (!major) return 'postgresql.conf'
    return major >= 12 ? 'postgresql.conf' : 'postgresql.conf'
  }\<close>
\<close>

definition pgConfigName :: "int optional \<Rightarrow> string" where
  "pgConfigName major =
     (if \<not> truthy major then ''postgresql.conf''
      else (case major of
              Val m \<Rightarrow> (if m \<ge> 12 then ''postgresql.conf'' else ''postgresql.conf'')
            | _ \<Rightarrow> ''postgresql.conf''))"

subsection \<open>Display formatters\<close>

text \<open>The placeholder is the em dash U+2014, three bytes in UTF-8.\<close>

definition dash :: string where
  "dash = [CHR 0xE2, CHR 0x80, CHR 0x94]"

text \<open>
  \<^verbatim>\<open>function formatNumber(value: number | null | undefined) {
    if (value === null || value === undefined) return '-'
    return new Intl.NumberFormat().format(value)
  }
  function formatMs(value: number | null | undefined) {
    if (value === null || value === undefined) return '-'
    return `${value.toFixed(1)} ms`
  }\<close>
  (with the em dash as the placeholder). The two platform functions are parameters:
  \<open>intl_format\<close> is \<open>new Intl.NumberFormat().format\<close>, whose output depends on the
  browser's locale, and \<open>toFixed\<close> is \<open>Number.prototype.toFixed\<close>, which returns a
  string for every number when its argument is 1.
\<close>

definition formatNumber :: "(real \<Rightarrow> string) \<Rightarrow> real optional \<Rightarrow> string" where
  "formatNumber intl_format value =
     (case value of Null \<Rightarrow> dash | Undefined \<Rightarrow> dash | Val v \<Rightarrow> intl_format v)"

definition formatMs :: "(real \<Rightarrow> nat \<Rightarrow> string) \<Rightarrow> real optional \<Rightarrow> string" where
  "formatMs toFixed value =
     (case value of Null \<Rightarrow> dash | Undefined \<Rightarrow> dash | Val v \<Rightarrow> toFixed v 1 @ '' ms'')"

subsection \<open>Data model\<close>

text \<open>The object types declared at the top of \<open>App.tsx\<close>. Timestamps are strings, as
  the JSON API sends them.\<close>

datatype json =
    JNull
  | JBool bool
  | JNumber real
  | JString string
  | JArray "json list"
  | JObject "(string \<times> json) list"

record Instance =
  in_id :: int
  in_name :: string
  in_host :: string
  in_port :: int
  in_dbname :: string
  in_user :: string
  in_ssl_mode :: string
  in_created_at :: string

record SetupState =
  ss_id :: int
  ss_instance :: int
  ss_pg_version_num :: "int optional"
  ss_preload_ok :: bool
  ss_ext_created :: bool
  ss_ready :: bool
  ss_last_checked_at :: string

record SetupInfo =
  si_status :: string
  si_ready :: bool
  si_pg_version_num :: int
  si_preload_ok :: bool
  si_ext_created :: bool
  si_checks :: "(string \<times> json) list"
  si_params :: "(string \<times> string) list"

record QueryStat =
  qs_queryid :: string
  qs_query_norm :: string
  qs_calls :: real
  qs_total_time_ms :: real
  qs_mean_time_ms :: real
  qs_rows :: real
  qs_shared_blks_read :: real
  qs_shared_blks_hit :: real
  qs_temp_blks_written :: real
  qs_wal_bytes :: real

record Snapshot =
  sn_id :: int
  sn_instance :: int
  sn_captured_at :: string
  sn_query_stats :: "QueryStat list"

record Recommendation =
  rc_id :: int
  rc_instance :: int
  rc_type :: string
  rc_title :: string
  rc_details :: string
  rc_sql :: string
  rc_confidence :: string
  rc_score :: real
  rc_status :: string
  rc_created_at :: string

record FormState =
  fm_name :: string
  fm_host :: string
  fm_port :: string
  fm_dbname :: string
  fm_user :: string
  fm_password :: string
  fm_ssl_mode :: string

definition defaultForm :: FormState where
  "defaultForm = \<lparr> fm_name = '''', fm_host = '''', fm_port = ''5432'', fm_dbname = '''',
     fm_user = '''', fm_password = '''', fm_ssl_mode = ''prefer'' \<rparr>"

text \<open>The component's state: one field per \<open>useState\<close> hook of \<open>App\<close>.\<close>

record AppState =
  instances :: "Instance list"
  setupStates :: "int \<rightharpoonup> SetupState"
  setupInfo :: "int \<rightharpoonup> SetupInfo"
  snapshots :: "int \<rightharpoonup> Snapshot"
  recommendations :: "int \<rightharpoonup> Recommendation list"
  selectedId :: "int option"
  form :: FormState
  resetPassword :: string
  busyAction :: "string option"
  error :: "string option"

subsection \<open>Grouping fetched lists by instance\<close>

text \<open>
  \<^verbatim>\<open>const next: Record<number, SetupState> = {}
  data.forEach((state) => {
    if (!next[state.instance]) {
      next[state.instance] = state
    }
  })\<close>
  An object is truthy, so \<open>!next[k]\<close> holds exactly when the key \<open>k\<close> is unset.
\<close>

definition setupStates_next :: "SetupState list \<Rightarrow> (int \<rightharpoonup> SetupState)" where
  "setupStates_next data =
     fold (\<lambda>state next.
             if next (ss_instance state) = None then next(ss_instance state \<mapsto> state)
             else next)
          data Map.empty"

text \<open>
  \<^verbatim>\<open>const next: Record<number, Snapshot> = {}
  data.forEach((snapshot) => {
    if (!next[snapshot.instance]) {
      next[snapshot.instance] = snapshot
    }
  })\<close>
\<close>

definition snapshots_next :: "Snapshot list \<Rightarrow> (int \<rightharpoonup> Snapshot)" where
  "snapshots_next data =
     fold (\<lambda>snapshot next.
             if next (sn_instance snapshot) = None then next(sn_instance snapshot \<mapsto> snapshot)
             else next)
          data Map.empty"

text \<open>
  \<open>Array.prototype.sort\<close> with a comparison function: \<open>compareFn a b < 0\<close> puts \<open>a\<close>
  before \<open>b\<close>, and elements that compare equal keep their order (the sort is stable since
  ECMAScript 2019). For a consistent comparison function the result is therefore fixed,
  whatever algorithm the engine runs; it is computed here by insertion from the right.
\<close>

fun sort_insert :: "('a \<Rightarrow> 'a \<Rightarrow> real) \<Rightarrow> 'a \<Rightarrow> 'a list \<Rightarrow> 'a list" where
  "sort_insert compareFn a [] = [a]"
| "sort_insert compareFn a (b # bs) =
     (if compareFn a b \<le> 0 then a # b # bs else b # sort_insert compareFn a bs)"

definition array_sort :: "('a \<Rightarrow> 'a \<Rightarrow> real) \<Rightarrow> 'a list \<Rightarrow> 'a list" where
  "array_sort compareFn xs = foldr (sort_insert compareFn) xs []"

text \<open>
  \<^verbatim>\<open>const next: Record<number, Recommendation[]> = {}
  data.forEach((rec) => {
    if (!next[rec.instance]) {
      next[rec.instance] = []
    }
    next[rec.instance].push(rec)
  })
  Object.values(next).forEach((list) => {
    list.sort((a, b) => b.score - a.score)
  })\<close>
  An array is truthy even when empty. The first loop is \<open>recommendations_grouped\<close>, the
  second sorts every list of the dictionary in place. After the \<open>if\<close> the key is set, so
  the \<open>None\<close> branch of the \<open>push\<close> is never taken.
\<close>

definition recommendations_grouped :: "Recommendation list \<Rightarrow> (int \<rightharpoonup> Recommendation list)" where
  "recommendations_grouped data =
     fold (\<lambda>rec next.
             let next1 = (if next (rc_instance rec) = None then next(rc_instance rec \<mapsto> [])
                          else next)
             in next1(rc_instance rec \<mapsto>
                  (case next1 (rc_instance rec) of Some list \<Rightarrow> list @ [rec] | None \<Rightarrow> [rec])))
          data Map.empty"

definition recommendations_next :: "Recommendation list \<Rightarrow> (int \<rightharpoonup> Recommendation list)" where
  "recommendations_next data =
     (\<lambda>k. map_option (array_sort (\<lambda>a b. rc_score b - rc_score a))
            (recommendations_grouped data k))"

subsection \<open>Replies and thrown values\<close>

text \<open>
  What a \<open>fetch\<close> call hands to the code that awaits it. \<open>Rejected t\<close>: the promise of
  \<open>fetch\<close>, or of \<open>res.json()\<close> on a 2xx reply, rejects with \<open>t\<close>.
  \<open>Status_not_ok body\<close>: \<open>res.ok\<close> is false; \<open>body\<close> is the reply's body read as JSON,
  \<open>None\<close> when it is not JSON. \<open>Status_ok v\<close>: \<open>res.ok\<close> is true and \<open>v\<close> is the body,
  at the type the code casts it to.
\<close>

datatype thrown = ErrorObject string | NotAnError

datatype 'a reply = Rejected thrown | Status_not_ok "json option" | Status_ok 'a

text \<open>\<open>err instanceof Error ? err.message : fallback\<close>, the body of every \<open>catch\<close>.\<close>

fun catch_message :: "string \<Rightarrow> thrown \<Rightarrow> string" where
  "catch_message fallback (ErrorObject message) = message"
| "catch_message fallback NotAnError = fallback"





subsection \<open>Loaders\<close>

text \<open>
  Each loader fetches a list, throws \<open>new Error('Failed to load ...')\<close> on a reply that is
  not 2xx, stores the grouped list, and catches whatever was thrown into \<open>error\<close>.
\<close>

definition loadSetupStates :: "SetupState list reply \<Rightarrow> AppState \<Rightarrow> AppState" where
  "loadSetupStates res st =
     (case res of
        Status_ok data \<Rightarrow> st\<lparr>setupStates := setupStates_next data\<rparr>
      | Status_not_ok _ \<Rightarrow>
          st\<lparr>error := Some (catch_message ''Unable to load setup states.''
                               (ErrorObject ''Failed to load setup states.''))\<rparr>
      | Rejected t \<Rightarrow> st\<lparr>error := Some (catch_message ''Unable to load setup states.'' t)\<rparr>)"

definition loadSnapshots :: "Snapshot list reply \<Rightarrow> AppState \<Rightarrow> AppState" where
  "loadSnapshots res st =
     (case res of
        Status_ok data \<Rightarrow> st\<lparr>snapshots := snapshots_next data\<rparr>
      | Status_not_ok _ \<Rightarrow>
          st\<lparr>error := Some (catch_message ''Unable to load snapshots.''
                               (ErrorObject ''Failed to load snapshots.''))\<rparr>
      | Rejected t \<Rightarrow> st\<lparr>error := Some (catch_message ''Unable to load snapshots.'' t)\<rparr>)"

definition loadRecommendations :: "Recommendation list reply \<Rightarrow> AppState \<Rightarrow> AppState" where
  "loadRecommendations res st =
     (case res of
        Status_ok data \<Rightarrow> st\<lparr>recommendations := recommendations_next data\<rparr>
      | Status_not_ok _ \<Rightarrow>
          st\<lparr>error := Some (catch_message ''Unable to load recommendations.''
                               (ErrorObject ''Failed to load recommendations.''))\<rparr>
      | Rejected t \<Rightarrow> st\<lparr>error := Some (catch_message ''Unable to load recommendations.'' t)\<rparr>)"

subsection \<open>Handlers\<close>





subsection \<open>Rendering\<close>

text \<open>
  \<open>selectedId ? snapshots[selectedId] ?? null : null\<close>: a selected id of 0 is falsy and
  selects nothing.
\<close>

definition selectedSnapshot :: "AppState \<Rightarrow> Snapshot option" where
  "selectedSnapshot st =
     (case selectedId st of
        None \<Rightarrow> None
      | Some k \<Rightarrow> (if k = 0 then None else snapshots st k))"

text \<open>\<open>xs.slice(start, end)\<close> for indices that are not negative.\<close>

definition slice :: "nat \<Rightarrow> nat \<Rightarrow> 'a list \<Rightarrow> 'a list" where
  "slice start end xs = take (end - start) (drop start xs)"

text \<open>
  One table row of the snapshot section: the query text and the four formatted cells.
  \<^verbatim>\<open>{selectedSnapshot.query_stats.slice(0, 8).map((stat) => (
     <tr key={stat.queryid}> ... {stat.query_norm} ... {formatNumber(stat.calls)}
       {formatMs(stat.total_time_ms)} {formatMs(stat.mean_time_ms)} {formatNumber(stat.rows)}
     </tr>))}\<close>
\<close>

record TableRow =
  row_key :: string
  row_query :: string
  row_calls :: string
  row_total_time :: string
  row_mean_time :: string
  row_rows :: string

definition table_row :: "(real \<Rightarrow> string) \<Rightarrow> (real \<Rightarrow> nat \<Rightarrow> string) \<Rightarrow> QueryStat \<Rightarrow> TableRow" where
  "table_row intl_format toFixed stat =
     \<lparr> row_key = qs_queryid stat,
       row_query = qs_query_norm stat,
       row_calls = formatNumber intl_format (Val (qs_calls stat)),
       row_total_time = formatMs toFixed (Val (qs_total_time_ms stat)),
       row_mean_time = formatMs toFixed (Val (qs_mean_time_ms stat)),
       row_rows = formatNumber intl_format (Val (qs_rows stat)) \<rparr>"

definition snapshot_rows ::
  "(real \<Rightarrow> string) \<Rightarrow> (real \<Rightarrow> nat \<Rightarrow> string) \<Rightarrow> Snapshot \<Rightarrow> TableRow list" where
  "snapshot_rows intl_format toFixed snapshot =
     map (table_row intl_format toFixed) (slice 0 8 (sn_query_stats snapshot))"

subsection \<open>The Setup Checker\<close>

text \<open>
  Modelled from the spec: the Setup Checker behind \<open>POST /instances/{id}/check_setup/\<close>
  belongs to the backend, which is not among the sources; the client only declares the
  type \<open>SetupInfo\<close> of its result and stores what it receives. The definition follows
  section 4.1 of the specification: connect (on failure report \<open>CONNECTION_FAILED\<close>
  with no further checks), read the server version, look for \<open>pg_stat_statements\<close> in
  \<open>shared_preload_libraries\<close>, look for the created extension, read the extension's
  parameters; \<open>ready = preload_ok AND ext_created\<close>; \<open>status\<close> is one of \<open>READY\<close>,
  \<open>PRELOAD_MISSING\<close>, \<open>EXTENSION_MISSING\<close>, \<open>CONNECTION_FAILED\<close>,
  \<open>PERMISSION_DENIED\<close>; \<open>checks\<close> has one entry per probe, \<open>null\<close> for a probe that
  was skipped. A target with neither the preload entry nor the extension is
  \<open>PRELOAD_MISSING\<close> (section 8), so the preload probe classifies first. The
  specification names neither the keys of \<open>checks\<close> nor the version number of a failed
  check: the keys here are the probes' subjects, the number is 0.

  \<open>target\<close> is what the probes find: the server cannot be reached, it refuses the
  statistics views to the role, or it answers every probe.
\<close>

datatype target =
    Unreachable
  | Forbidden
  | Reachable int bool bool "(string \<times> string) list"

fun check_setup :: "target \<Rightarrow> SetupInfo" where
  "check_setup Unreachable =
     \<lparr> si_status = ''CONNECTION_FAILED'', si_ready = False, si_pg_version_num = 0,
       si_preload_ok = False, si_ext_created = False,
       si_checks = [(''connection'', JBool False), (''server_version_num'', JNull),
                    (''shared_preload_libraries'', JNull), (''extension'', JNull)],
       si_params = [] \<rparr>"
| "check_setup Forbidden =
     \<lparr> si_status = ''PERMISSION_DENIED'', si_ready = False, si_pg_version_num = 0,
       si_preload_ok = False, si_ext_created = False,
       si_checks = [(''connection'', JBool True), (''server_version_num'', JNull),
                    (''shared_preload_libraries'', JNull), (''extension'', JNull)],
       si_params = [] \<rparr>"
| "check_setup (Reachable version_num preload_ok ext_created params) =
     \<lparr> si_status = (if \<not> preload_ok then ''PRELOAD_MISSING''
                    else if \<not> ext_created then ''EXTENSION_MISSING''
                    else ''READY''),
       si_ready = (preload_ok \<and> ext_created),
       si_pg_version_num = version_num,
       si_preload_ok = preload_ok,
       si_ext_created = ext_created,
       si_checks = [(''connection'', JBool True),
                    (''server_version_num'', JNumber (of_int version_num)),
                    (''shared_preload_libraries'', JBool preload_ok),
                    (''extension'', JBool ext_created)],
       si_params = params \<rparr>"

subsection \<open>Reading timestamps\<close>

text \<open>
  The client never compares two timestamps. To say which of two records is the later one,
  the properties below take a reading \<open>stamp\<close> of the timestamp strings into a linear
  order (the instant \<open>new Date(s).getTime()\<close>, or the string itself for ISO-8601
  timestamps of one format and zone). \<open>latest_of key xs x\<close>: \<open>x\<close> is an element of
  \<open>xs\<close> and none of \<open>xs\<close> is later.
\<close>

definition latest_of :: "('a \<Rightarrow> 'k::linorder) \<Rightarrow> 'a list \<Rightarrow> 'a \<Rightarrow> bool" where
  "latest_of key xs x = (x \<in> set xs \<and> (\<forall>y \<in> set xs. key y \<le> key x))"

text \<open>\<open>newest_first inst key xs\<close>: within each instance, \<open>xs\<close> lists later records before
  earlier ones.\<close>

definition newest_first :: "('a \<Rightarrow> int) \<Rightarrow> ('a \<Rightarrow> 'k::linorder) \<Rightarrow> 'a list \<Rightarrow> bool" where
  "newest_first inst key xs = sorted_wrt (\<lambda>a b. inst a = inst b \<longrightarrow> key b \<le> key a) xs"

subsection \<open>Initial state and sample data\<close>

text \<open>The initial values of the \<open>useState\<close> hooks.\<close>

definition initialState :: AppState where
  "initialState = \<lparr> instances = [], setupStates = Map.empty, setupInfo = Map.empty,
     snapshots = Map.empty, recommendations = Map.empty, selectedId = None,
     form = defaultForm, resetPassword = '''', busyAction = None, error = None \<rparr>"

text \<open>Two snapshots and two setup states of instance 1, a day apart, and a snapshot of
  ten query rows, for the concrete instances of the theorems below.\<close>

definition snapshot_jan1 :: Snapshot where
  "snapshot_jan1 = \<lparr> sn_id = 1, sn_instance = 1, sn_captured_at = ''2024-01-01T00:00:00Z'',
     sn_query_stats = [] \<rparr>"

definition snapshot_jan2 :: Snapshot where
  "snapshot_jan2 = \<lparr> sn_id = 2, sn_instance = 1, sn_captured_at = ''2024-01-02T00:00:00Z'',
     sn_query_stats = [] \<rparr>"

definition state_jan1 :: SetupState where
  "state_jan1 = \<lparr> ss_id = 1, ss_instance = 1, ss_pg_version_num = Val 150003,
     ss_preload_ok = False, ss_ext_created = False, ss_ready = False,
     ss_last_checked_at = ''2024-01-01T00:00:00Z'' \<rparr>"

definition state_jan2 :: SetupState where
  "state_jan2 = \<lparr> ss_id = 2, ss_instance = 1, ss_pg_version_num = Val 150003,
     ss_preload_ok = True, ss_ext_created = True, ss_ready = True,
     ss_last_checked_at = ''2024-01-02T00:00:00Z'' \<rparr>"

definition stat_row :: "nat \<Rightarrow> QueryStat" where
  "stat_row n = \<lparr> qs_queryid = replicate n CHR ''q'', qs_query_norm = ''SELECT 1'',
     qs_calls = real n, qs_total_time_ms = 10, qs_mean_time_ms = 1, qs_rows = 1,
     qs_shared_blks_read = 0, qs_shared_blks_hit = 0, qs_temp_blks_written = 0,
     qs_wal_bytes = 0 \<rparr>"

definition snapshot_ten_rows :: Snapshot where
  "snapshot_ten_rows = \<lparr> sn_id = 3, sn_instance = 1, sn_captured_at = ''2024-01-03T00:00:00Z'',
     sn_query_stats = map stat_row [1, 2, 3, 4, 5, 6, 7, 8, 9, 10] \<rparr>"

section \<open>Properties\<close>

subsection \<open>The Setup Checker\<close>

text \<open>
  C1. For every result of \<open>check_setup\<close>, the \<open>ready\<close> flag is the conjunction of the
  \<open>preload_ok\<close> flag and the \<open>ext_created\<close> flag.
\<close>

theorem check_setup_ready_conjunction:
  "si_ready (check_setup t) = (si_preload_ok (check_setup t) \<and> si_ext_created (check_setup t))"
  by (cases t) simp_all

subsection \<open>First entry per instance\<close>

text \<open>A loop that stores an element only under an unset key keeps, for each key, the first
  element of the list that has it.\<close>

lemma first_wins_fold:
  "fold (\<lambda>x m. if m (k x) = None then m(k x \<mapsto> x) else m) xs m0 i =
     (case m0 i of Some y \<Rightarrow> Some y | None \<Rightarrow> find (\<lambda>x. k x = i) xs)"
  by (induction xs arbitrary: m0) (auto split: option.splits)

lemma snapshots_next_find:
  "snapshots_next data i = find (\<lambda>s. sn_instance s = i) data"
  unfolding snapshots_next_def by (simp add: first_wins_fold)

lemma setupStates_next_find:
  "setupStates_next data i = find (\<lambda>s. ss_instance s = i) data"
  unfolding setupStates_next_def by (simp add: first_wins_fold)

lemma find_instance: "find (\<lambda>x. inst x = i) xs = Some x \<Longrightarrow> inst x = i \<and> x \<in> set xs"
  by (auto simp: find_Some_iff)

text \<open>In a list that is newest first within each instance, the first element of an
  instance is its latest.\<close>

lemma find_newest_first:
  assumes "newest_first inst key xs"
    and "find (\<lambda>x. inst x = i) xs = Some x"
  shows "latest_of key (filter (\<lambda>x. inst x = i) xs) x"
  using assms unfolding newest_first_def
proof (induction xs)
  case Nil
  then show ?case by simp
next
  case (Cons a xs)
  show ?case
  proof (cases "inst a = i")
    case True
    with Cons.prems have "x = a" by simp
    with True Cons.prems(1) show ?thesis
      by (auto simp: latest_of_def)
  next
    case False
    with Cons show ?thesis by (simp add: latest_of_def)
  qed
qed

text \<open>
  C2 (as amended). For every list returned by the snapshots endpoint, the snapshot kept
  for an instance id is the first snapshot of that instance in the order of the list;
  it is the one with the most recent \<open>captured_at\<close> among that instance's snapshots
  whenever the list gives each instance's snapshots newest first. The client compares no
  timestamps itself.
\<close>

theorem loadSnapshots_first_listed:
  "snapshots (loadSnapshots (Status_ok data) st) i = find (\<lambda>s. sn_instance s = i) data
   \<and> (newest_first sn_instance (\<lambda>s. stamp (sn_captured_at s)) data \<longrightarrow>
       (\<forall>s. snapshots (loadSnapshots (Status_ok data) st) i = Some s \<longrightarrow>
          latest_of (\<lambda>s. stamp (sn_captured_at s)) (filter (\<lambda>s. sn_instance s = i) data) s))"
  by (auto simp: loadSnapshots_def snapshots_next_find intro: find_newest_first)

theorem loadSnapshots_first_listed_witness:
  "newest_first sn_instance (\<lambda>s. sn_captured_at s) [snapshot_jan2, snapshot_jan1]
   \<and> snapshots (loadSnapshots (Status_ok [snapshot_jan2, snapshot_jan1]) initialState) 1
       = Some snapshot_jan2
   \<and> latest_of (\<lambda>s. sn_captured_at s)
       (filter (\<lambda>s. sn_instance s = 1) [snapshot_jan2, snapshot_jan1]) snapshot_jan2"
proof -
  have sorted: "newest_first sn_instance (\<lambda>s. sn_captured_at s) [snapshot_jan2, snapshot_jan1]"
    by (simp add: newest_first_def snapshot_jan1_def snapshot_jan2_def)
  have sel: "snapshots (loadSnapshots (Status_ok [snapshot_jan2, snapshot_jan1]) initialState) 1
       = Some snapshot_jan2"
    by (simp add: loadSnapshots_def snapshots_next_def snapshot_jan1_def snapshot_jan2_def)
  from loadSnapshots_first_listed
         [of "[snapshot_jan2, snapshot_jan1]" initialState 1 "\<lambda>s. s"] sorted sel
  show ?thesis by blast
qed

text \<open>The claim as first stated fails when the list gives an older snapshot first: both
  snapshots belong to instance 1, the one kept is that of 1 January, and that of
  2 January is later.\<close>

theorem loadSnapshots_most_recent_counterexample:
  "sn_instance snapshot_jan1 = 1 \<and> sn_instance snapshot_jan2 = 1
   \<and> snapshots (loadSnapshots (Status_ok [snapshot_jan1, snapshot_jan2]) initialState) 1
       = Some snapshot_jan1
   \<and> sn_captured_at snapshot_jan1 < sn_captured_at snapshot_jan2"
  by (simp add: loadSnapshots_def snapshots_next_def snapshot_jan1_def snapshot_jan2_def)

text \<open>
  C3 (as amended). For every list returned by the setup-states endpoint, at most one
  SetupState is retained per instance id, and the retained one is the first of that
  instance in the order of the list; it is the latest by \<open>last_checked_at\<close> for that
  instance whenever the list gives each instance's states newest first.
\<close>

theorem loadSetupStates_first_listed:
  "(\<forall>j k s t. setupStates (loadSetupStates (Status_ok data) st) j = Some s
        \<and> setupStates (loadSetupStates (Status_ok data) st) k = Some t
        \<and> ss_instance s = ss_instance t \<longrightarrow> s = t)
   \<and> setupStates (loadSetupStates (Status_ok data) st) i = find (\<lambda>s. ss_instance s = i) data
   \<and> (newest_first ss_instance (\<lambda>s. stamp (ss_last_checked_at s)) data \<longrightarrow>
       (\<forall>s. setupStates (loadSetupStates (Status_ok data) st) i = Some s \<longrightarrow>
          latest_of (\<lambda>s. stamp (ss_last_checked_at s))
            (filter (\<lambda>s. ss_instance s = i) data) s))"
proof -
  have "s = t"
    if "find (\<lambda>s. ss_instance s = j) data = Some s"
      and "find (\<lambda>s. ss_instance s = k) data = Some t"
      and "ss_instance s = ss_instance t" for j k s t
  proof -
    from that(1) have "ss_instance s = j" by (rule find_instance [THEN conjunct1])
    moreover from that(2) have "ss_instance t = k" by (rule find_instance [THEN conjunct1])
    ultimately have "j = k" using that(3) by simp
    with that(1,2) show ?thesis by simp
  qed
  then show ?thesis
    by (auto simp: loadSetupStates_def setupStates_next_find intro: find_newest_first)
qed

theorem loadSetupStates_first_listed_witness:
  "newest_first ss_instance (\<lambda>s. ss_last_checked_at s) [state_jan2, state_jan1]
   \<and> setupStates (loadSetupStates (Status_ok [state_jan2, state_jan1]) initialState) 1
       = Some state_jan2
   \<and> latest_of (\<lambda>s. ss_last_checked_at s)
       (filter (\<lambda>s. ss_instance s = 1) [state_jan2, state_jan1]) state_jan2"
proof -
  have sorted: "newest_first ss_instance (\<lambda>s. ss_last_checked_at s) [state_jan2, state_jan1]"
    by (simp add: newest_first_def state_jan1_def state_jan2_def)
  have sel: "setupStates (loadSetupStates (Status_ok [state_jan2, state_jan1]) initialState) 1
       = Some state_jan2"
    by (simp add: loadSetupStates_def setupStates_next_def state_jan1_def state_jan2_def)
  from loadSetupStates_first_listed
         [of "[state_jan2, state_jan1]" initialState 1 "\<lambda>s. s"] sorted sel
  show ?thesis by blast
qed

text \<open>The claim as first stated fails when the list gives an older state first: both
  states belong to instance 1, the one retained was checked on 1 January, the other on
  2 January.\<close>

theorem loadSetupStates_latest_counterexample:
  "ss_instance state_jan1 = 1 \<and> ss_instance state_jan2 = 1
   \<and> setupStates (loadSetupStates (Status_ok [state_jan1, state_jan2]) initialState) 1
       = Some state_jan1
   \<and> ss_last_checked_at state_jan1 < ss_last_checked_at state_jan2"
  by (simp add: loadSetupStates_def setupStates_next_def state_jan1_def state_jan2_def)

subsection \<open>Version helpers\<close>

text \<open>Rounding to the nearest integer is exact on integers and errs by a half at most.\<close>

lemma round_half_even_of_int: "round_half_even (of_int m) = m"
  by (simp add: round_half_even_def)

lemma round_half_even_error: "\<bar>of_int (round_half_even x) - x\<bar> \<le> 1 / 2"
  unfolding round_half_even_def Let_def by (auto; linarith)

text \<open>\<open>exponent\<close> is the binary exponent: \<open>2^e \<le> |x| < 2^(e+1)\<close>.\<close>

lemma exponent_bounds:
  assumes "x \<noteq> 0"
  shows "2 powi exponent x \<le> \<bar>x\<bar> \<and> \<bar>x\<bar> < 2 powi (exponent x + 1)"
proof (cases "1 \<le> \<bar>x\<bar>")
  case True
  define m where "m = \<lfloor>\<bar>x\<bar>\<rfloor>"
  have m: "0 < m" using True by (simp add: m_def)
  have b: "1 \<le> bitlen m" using m by (simp add: bitlen_alt_def)
  have e: "exponent x = bitlen m - 1" using True by (simp add: exponent_def m_def)
  from bitlen_bounds [OF m] have lo: "2 ^ nat (bitlen m - 1) \<le> m" and hi: "m < 2 ^ nat (bitlen m)"
    by simp_all
  have "real_of_int (2 ^ nat (bitlen m - 1)) \<le> of_int m" using lo by (simp only: of_int_le_iff)
  also have "\<dots> \<le> \<bar>x\<bar>" by (simp add: m_def)
  finally have 1: "2 powi exponent x \<le> \<bar>x\<bar>" using b by (simp add: e power_int_def)
  from hi have "m + 1 \<le> 2 ^ nat (bitlen m)" by simp
  then have "real_of_int (m + 1) \<le> real_of_int (2 ^ nat (bitlen m))" by (simp only: of_int_le_iff)
  moreover have "\<bar>x\<bar> < real_of_int (m + 1)" by (simp add: m_def)
  ultimately have "\<bar>x\<bar> < 2 ^ nat (bitlen m)" by simp
  then have 2: "\<bar>x\<bar> < 2 powi (exponent x + 1)" using b by (simp add: e power_int_def)
  from 1 2 show ?thesis ..
next
  case False
  define y where "y = 1 / \<bar>x\<bar>"
  define c where "c = nat \<lceil>y\<rceil>"
  define l where "l = ceillog2 c"
  have x: "0 < \<bar>x\<bar>" "\<bar>x\<bar> < 1" using assms False by simp_all
  have y: "1 < y" using x by (simp add: y_def)
  then have cy: "y \<le> real c" "2 \<le> c" unfolding c_def by linarith+
  have e: "exponent x = - int l" using False by (simp add: exponent_def l_def c_def y_def)
  have l: "0 < l"
  proof (rule ccontr)
    assume "\<not> 0 < l"
    then have "c \<le> 2 ^ 0" using le_two_power_ceillog2 [of c] by (simp add: l_def)
    with cy(2) show False by simp
  qed
  have "real c \<le> 2 ^ l" using le_two_power_ceillog2 [of c]
    by (metis l_def of_nat_le_iff of_nat_numeral of_nat_power)
  with cy(1) have "y \<le> 2 ^ l" by (rule order_trans)
  then have "1 / 2 ^ l \<le> \<bar>x\<bar>" using x by (simp add: y_def field_simps)
  then have 1: "2 powi exponent x \<le> \<bar>x\<bar>" by (simp add: e power_int_minus field_simps)
  have "2 ^ l < 2 * c" using two_power_ceillog2_gt [of c] cy(2) by (simp add: l_def)
  then have "2 * 2 ^ (l - 1) < 2 * c" using l by (cases l) simp_all
  then have "(2::nat) ^ (l - 1) < c" by simp
  then have "int (2 ^ (l - 1)) < \<lceil>y\<rceil>" unfolding c_def by linarith
  then have "real_of_int (int (2 ^ (l - 1))) < y" by (simp only: less_ceiling_iff)
  then have "2 ^ (l - 1) < y" by simp
  then have "\<bar>x\<bar> < 1 / 2 ^ (l - 1)" using x by (simp add: y_def field_simps)
  moreover have "2 powi (exponent x + 1) = 1 / (2::real) ^ (l - 1)"
    using l by (cases l) (simp_all add: e power_int_minus field_simps)
  ultimately have 2: "\<bar>x\<bar> < 2 powi (exponent x + 1)" by simp
  from 1 2 show ?thesis ..
qed

lemma exponent_eqI:
  assumes "2 powi k \<le> \<bar>x\<bar>" "\<bar>x\<bar> < 2 powi (k + 1)"
  shows "exponent x = k"
proof -
  have "0 < (2::real) powi k" by simp
  with assms(1) have "0 < \<bar>x\<bar>" by linarith
  then have x: "x \<noteq> 0" by simp
  note b = exponent_bounds [OF x]
  have less: "i < j" if "(2::real) powi i < 2 powi j" for i j :: int
  proof (rule ccontr)
    assume "\<not> i < j"
    then have "(2::real) powi j \<le> 2 powi i" by (intro power_int_increasing) simp_all
    with that show False by simp
  qed
  have "(2::real) powi exponent x < 2 powi (k + 1)" using b assms(2) by linarith
  then have 1: "exponent x < k + 1" by (rule less)
  have "(2::real) powi k < 2 powi (exponent x + 1)" using b assms(1) by linarith
  then have 2: "k < exponent x + 1" by (rule less)
  from 1 2 show ?thesis by simp
qed

lemma exponent_le:
  assumes "x \<noteq> 0" "\<bar>x\<bar> < 2 ^ n" "0 < n"
  shows "exponent x \<le> int n - 1"
proof (cases "1 \<le> \<bar>x\<bar>")
  case True
  from assms(2) have "\<lfloor>\<bar>x\<bar>\<rfloor> < 2 ^ n"
    by (simp add: floor_less_iff)
  then have "bitlen \<lfloor>\<bar>x\<bar>\<rfloor> \<le> int n"
    by (simp add: bitlen_le_iff_power)
  with True show ?thesis by (simp add: exponent_def)
next
  case False
  with assms(3) show ?thesis by (simp add: exponent_def)
qed

text \<open>Rounding to a double errs by half the spacing at most, and leaves an integer below
  \<open>2^53\<close> as it is.\<close>

lemma round_double_error:
  assumes "x \<noteq> 0"
  shows "\<bar>round_double x - x\<bar> \<le> 2 powi (exponent x - 52) / 2"
proof -
  define u :: real where "u = 2 powi (exponent x - 52)"
  have u: "0 < u" by (simp add: u_def)
  have "round_double x - x = u * (of_int (round_half_even (x / u)) - x / u)"
    using u assms by (simp add: round_double_def u_def Let_def algebra_simps)
  then have "\<bar>round_double x - x\<bar> = u * \<bar>of_int (round_half_even (x / u)) - x / u\<bar>"
    using u by (simp add: abs_mult)
  also have "\<dots> \<le> u * (1 / 2)"
    using u round_half_even_error [of "x / u"] by (intro mult_left_mono) auto
  finally show ?thesis by (simp add: u_def)
qed

lemma round_double_of_int:
  assumes "k \<noteq> 0" "\<bar>k\<bar> < 2 ^ 53"
  shows "round_double (of_int k) = of_int k"
proof -
  have "\<bar>real_of_int k\<bar> < 2 ^ 53" using assms(2)
    by (metis of_int_abs of_int_less_numeral_power_cancel_iff)
  with assms(1) have e: "exponent (of_int k) \<le> 52"
    using exponent_le [of "of_int k" 53] by simp
  define j where "j = nat (52 - exponent (real_of_int k))"
  have u: "2 powi (exponent (real_of_int k) - 52) = 1 / (2::real) ^ j"
    using e by (simp add: j_def power_int_def field_simps)
  have "real_of_int k / (1 / 2 ^ j) = of_int (k * 2 ^ j)" by simp
  then have "round_half_even (real_of_int k / (1 / 2 ^ j)) = k * 2 ^ j"
    by (metis round_half_even_of_int)
  then show ?thesis
    using assms(1) by (simp add: round_double_def Let_def u)
qed

text \<open>The rounded quotient by 10000 of a nonzero integer up to \<open>2^53\<close> has the floor of
  the exact quotient: the exact quotient is an integer, or at least \<open>1/10000\<close> away from
  one, and the rounding moves it by \<open>2^-14\<close> at most.\<close>

lemma floor_double_div_10000:
  assumes "n \<noteq> 0" "\<bar>n\<bar> \<le> 2 ^ 53"
  shows "\<lfloor>double_div (of_int n) 10000\<rfloor> = n div 10000"
proof -
  define q :: real where "q = of_int n / 10000"
  define k where "k = n div 10000"
  define r where "r = n mod 10000"
  have n: "n = k * 10000 + r" and r: "0 \<le> r" "r < 10000"
    by (simp_all add: k_def r_def)
  have q: "q = of_int k + of_int r / 10000"
    by (simp add: q_def n)
  have q0: "q \<noteq> 0" using assms(1) by (simp add: q_def)
  have "\<bar>real_of_int n\<bar> \<le> 2 ^ 53" using assms(2)
    by (metis of_int_abs of_int_le_numeral_power_cancel_iff)
  then have qb: "\<bar>q\<bar> < 2 ^ 40" by (simp add: q_def)
  show ?thesis
  proof (cases "r = 0")
    case True
    then have qk: "q = of_int k" by (simp add: q)
    with q0 have "k \<noteq> 0" by auto
    moreover have "\<bar>k\<bar> < 2 ^ 53"
    proof -
      have "\<bar>real_of_int k\<bar> < 2 ^ 53" using qb unfolding qk by simp
      then show ?thesis by (metis of_int_abs of_int_less_numeral_power_cancel_iff)
    qed
    ultimately have "round_double q = of_int k" unfolding qk by (rule round_double_of_int)
    then show ?thesis by (simp add: double_div_def q_def [symmetric] k_def)
  next
    case False
    with r have r1: "1 \<le> r" "r \<le> 9999" by simp_all
    have e: "exponent q \<le> 39" using exponent_le [OF q0 qb] by simp
    have "2 powi (exponent q - 52) \<le> (2::real) powi (39 - 52)"
      using e by (intro power_int_increasing) simp_all
    also have "\<dots> = 1 / 8192" by (simp add: power_int_minus)
    finally have "\<bar>round_double q - q\<bar> \<le> 1 / 16384"
      using round_double_error [OF q0] by simp
    moreover have "of_int k + 1 / 10000 \<le> q" "q \<le> of_int k + 9999 / 10000"
      using r1 by (simp_all add: q)
    ultimately have "of_int k \<le> round_double q" "round_double q < of_int k + 1"
      by linarith+
    then have "\<lfloor>round_double q\<rfloor> = k" by (simp add: floor_unique)
    then show ?thesis by (simp add: double_div_def q_def [symmetric] k_def)
  qed
qed

text \<open>
  C4. For every Postgres server version number, the computed major version is the version
  number integer-divided by 10000 (150003 yields 15). A server version number is a
  positive integer of a few digits; the theorem covers every nonzero integer up to
  \<open>2^53\<close> in magnitude, the range in which a double carries every integer. The value 0
  stands for no version in the client and yields \<open>null\<close>.
\<close>

theorem pgMajorVersion_div:
  "versionNum \<noteq> 0 \<Longrightarrow> \<bar>versionNum\<bar> \<le> 2 ^ 53 \<Longrightarrow>
     pgMajorVersion (Val versionNum) = Val (versionNum div 10000)"
  by (simp add: pgMajorVersion_def floor_double_div_10000)

theorem pgMajorVersion_div_witness:
  "(150003::int) \<noteq> 0 \<and> \<bar>150003::int\<bar> \<le> 2 ^ 53 \<and> pgMajorVersion (Val 150003) = Val 15"
  using pgMajorVersion_div [of 150003] by simp

text \<open>Beyond \<open>2^53\<close> the rounding of the quotient can reach the next integer; the exact
  quotient of the number below is 28427320625432.9984.\<close>

lemma pgMajorVersion_beyond_2_53:
  "pgMajorVersion (Val 284273206254329984) = Val 28427320625433"
proof -
  define q :: real where "q = 284273206254329984 / 10000"
  have q0: "q \<noteq> 0" by (simp add: q_def)
  have e: "exponent q = 44"
    by (rule exponent_eqI) (simp_all add: q_def)
  have u: "2 powi (exponent q - 52) = (1 / 256 :: real)"
    by (simp add: e power_int_minus)
  have r: "round_half_even (q * 256) = 7277394080110848"
    by (simp add: round_half_even_def q_def Let_def)
  have "round_double q = 28427320625433"
    using q0 by (simp add: round_double_def Let_def u r)
  then show ?thesis
    by (simp add: pgMajorVersion_def double_div_def q_def [symmetric])
qed

text \<open>
  C8. For every input major version, \<open>null\<close> and \<open>undefined\<close> included, \<open>pgConfigName\<close>
  returns the constant string \<open>postgresql.conf\<close>: both arms of the version conditional
  carry the same name.
\<close>

theorem pgConfigName_constant: "pgConfigName major = ''postgresql.conf''"
  by (cases major) (simp_all add: pgConfigName_def)

text \<open>
  C9. \<open>pgMajorVersion\<close> returns \<open>null\<close>, not 0, when the version number is 0, \<open>null\<close>
  or \<open>undefined\<close>, and a result other than \<open>null\<close> comes exactly from a nonzero number.
\<close>

theorem pgMajorVersion_null:
  "pgMajorVersion (Val 0) = Null \<and> pgMajorVersion Null = Null
   \<and> pgMajorVersion Undefined = Null
   \<and> (pgMajorVersion versionNum \<noteq> Null) = (\<exists>v. versionNum = Val v \<and> v \<noteq> 0)"
  by (cases versionNum) (simp_all add: pgMajorVersion_def)

subsection \<open>Recommendations by instance\<close>

lemma mset_sort_insert: "mset (sort_insert c a xs) = add_mset a (mset xs)"
  by (induction xs) simp_all

lemma mset_array_sort: "mset (array_sort c xs) = mset xs"
  unfolding array_sort_def by (induction xs) (simp_all add: mset_sort_insert)

lemma set_sort_insert: "set (sort_insert c a xs) = insert a (set xs)"
  by (induction xs) auto

lemma sorted_sort_insert:
  "sorted_wrt (\<lambda>a b. f b \<le> (f a :: real)) xs \<Longrightarrow>
   sorted_wrt (\<lambda>a b. f b \<le> f a) (sort_insert (\<lambda>a b. f b - f a) x xs)"
  by (induction xs) (auto simp: set_sort_insert)

lemma sorted_array_sort:
  "sorted_wrt (\<lambda>a b. f b \<le> (f a :: real)) (array_sort (\<lambda>a b. f b - f a) xs)"
  unfolding array_sort_def by (induction xs) (simp_all add: sorted_sort_insert)

text \<open>The first loop of \<open>loadRecommendations\<close> collects, under each instance id, that
  instance's recommendations in the order of the list.\<close>

lemma grouped_fold:
  "fold (\<lambda>rec next.
             let next1 = (if next (rc_instance rec) = None then next(rc_instance rec \<mapsto> [])
                          else next)
             in next1(rc_instance rec \<mapsto>
                  (case next1 (rc_instance rec) of Some list \<Rightarrow> list @ [rec] | None \<Rightarrow> [rec])))
          data m0 i =
   (case m0 i of
      Some l \<Rightarrow> Some (l @ filter (\<lambda>r. rc_instance r = i) data)
    | None \<Rightarrow> (if filter (\<lambda>r. rc_instance r = i) data = [] then None
               else Some (filter (\<lambda>r. rc_instance r = i) data)))"
  by (induction data arbitrary: m0) (auto simp: Let_def split: option.splits)

lemma recommendations_grouped_filter:
  "recommendations_grouped data i =
     (if filter (\<lambda>r. rc_instance r = i) data = [] then None
      else Some (filter (\<lambda>r. rc_instance r = i) data))"
  unfolding recommendations_grouped_def by (simp add: grouped_fold)

text \<open>
  C5. For every list returned by the recommendations endpoint, the list shown for an
  instance (\<open>recommendations[selectedId] ?? []\<close>) is a permutation of that instance's
  recommendations, in non-increasing order of score.
\<close>

theorem loadRecommendations_sorted_permutation:
  "(let shown = (case recommendations (loadRecommendations (Status_ok data) st) i of
                   None \<Rightarrow> [] | Some list \<Rightarrow> list)
    in mset shown = mset (filter (\<lambda>r. rc_instance r = i) data)
       \<and> sorted_wrt (\<lambda>a b. rc_score a \<ge> rc_score b) shown)"
  by (cases "filter (\<lambda>r. rc_instance r = i) data = []")
     (simp_all add: loadRecommendations_def recommendations_next_def
        recommendations_grouped_filter mset_array_sort sorted_array_sort)

subsection \<open>The snapshot table\<close>

text \<open>
  C6. For every displayed snapshot, the table shows the first 8 rows of the snapshot's
  \<open>query_stats\<close>, in their order and no more, while the snapshot held in the state is
  the fetched one, with all its rows.
\<close>

theorem snapshot_rows_first_eight:
  "selectedSnapshot (loadSnapshots (Status_ok data) st) = Some snapshot \<Longrightarrow>
     snapshot \<in> set data
     \<and> snapshot_rows intl_format toFixed snapshot
         = map (table_row intl_format toFixed) (take 8 (sn_query_stats snapshot))
     \<and> length (snapshot_rows intl_format toFixed snapshot)
         = min 8 (length (sn_query_stats snapshot))"
  by (auto simp: selectedSnapshot_def loadSnapshots_def snapshot_rows_def slice_def
        snapshots_next_find dest: find_instance split: option.splits if_splits)

theorem snapshot_rows_first_eight_witness:
  "selectedSnapshot (loadSnapshots (Status_ok [snapshot_ten_rows])
                       (initialState\<lparr>selectedId := Some 1\<rparr>))
     = Some snapshot_ten_rows
   \<and> length (sn_query_stats snapshot_ten_rows) = 10
   \<and> length (snapshot_rows (\<lambda>v. ''n'') (\<lambda>v d. ''t'') snapshot_ten_rows) = 8
   \<and> map row_key (snapshot_rows (\<lambda>v. ''n'') (\<lambda>v d. ''t'') snapshot_ten_rows)
       = map qs_queryid (map stat_row [1, 2, 3, 4, 5, 6, 7, 8])"
proof -
  have sel: "selectedSnapshot (loadSnapshots (Status_ok [snapshot_ten_rows])
               (initialState\<lparr>selectedId := Some 1\<rparr>)) = Some snapshot_ten_rows"
    by (simp add: selectedSnapshot_def loadSnapshots_def snapshots_next_def initialState_def
          snapshot_ten_rows_def)
  from snapshot_rows_first_eight [OF sel, of "\<lambda>v. ''n''" "\<lambda>v d. ''t''"] sel
  show ?thesis
    by (simp add: snapshot_ten_rows_def table_row_def)
qed

subsection \<open>Error messages\<close>





subsection \<open>Display formatters\<close>

text \<open>
  C10. \<open>formatNumber\<close> and \<open>formatMs\<close> return a string for every optional number: for
  \<open>null\<close> and \<open>undefined\<close> the placeholder, the em dash (bytes E2 80 94 in UTF-8), and
  for a number the platform's formatting of it, which \<open>formatMs\<close> ends with \<open> ms\<close>. So a
  missing statistic renders as the em dash, never as \<open>NaN\<close> or \<open>NaN ms\<close>. Neither
  function has a throwing path: \<open>toFixed\<close> throws only for a digit count outside 0 to
  100, and the count is the constant 1.
\<close>

theorem formatters_total:
  "formatNumber intl_format Null = [CHR 0xE2, CHR 0x80, CHR 0x94]
   \<and> formatNumber intl_format Undefined = [CHR 0xE2, CHR 0x80, CHR 0x94]
   \<and> formatMs toFixed Null = [CHR 0xE2, CHR 0x80, CHR 0x94]
   \<and> formatMs toFixed Undefined = [CHR 0xE2, CHR 0x80, CHR 0x94]
   \<and> formatNumber intl_format (Val v) = intl_format v
   \<and> formatMs toFixed (Val v) = toFixed v 1 @ [CHR 0x20, CHR ''m'', CHR ''s'']
   \<and> formatNumber intl_format Null \<noteq> ''NaN'' \<and> formatNumber intl_format Undefined \<noteq> ''NaN''
   \<and> formatMs toFixed Null \<noteq> ''NaN ms'' \<and> formatMs toFixed Undefined \<noteq> ''NaN ms''"
  by (simp add: formatNumber_def formatMs_def dash_def)

end
